theory Spec2Isabelle
  imports Main "HOL-Library.Sublist" "HOL-Library.List_Lexorder"
begin

section \<open>Python values used by rag\_pipeline.py\<close>

text \<open>
  Strings are lists of characters; a character stands for a code point below 256, so
  the character classes below are the ones Python's \<^verbatim>\<open>str\<close> and \<^verbatim>\<open>re\<close> use on that range.
  Exceptions are values of \<open>pyerr\<close>; a function that may raise returns \<open>pyerr + 'a\<close>.
\<close>

datatype pyerr = KeyError | ValueError | IndexError | TypeError | ExternalError

definition newline :: char where
  "newline = CHR 0x0A"

text \<open>\<^verbatim>\<open>str.isspace\<close> on one character, which is also the class \<^verbatim>\<open>\s\<close> of \<^verbatim>\<open>re\<close>.\<close>

definition py_space_chars :: string where
  "py_space_chars = [CHR 0x09, CHR 0x0A, CHR 0x0B, CHR 0x0C, CHR 0x0D,
     CHR 0x1C, CHR 0x1D, CHR 0x1E, CHR 0x1F, CHR 0x20, CHR 0x85, CHR 0xA0]"

definition is_space :: "char \<Rightarrow> bool" where
  "is_space c = (c \<in> set py_space_chars)"

text \<open>\<^verbatim>\<open>str.strip()\<close> with no argument.\<close>

definition py_strip :: "string \<Rightarrow> string" where
  "py_strip s = rev (dropWhile is_space (rev (dropWhile is_space s)))"

text \<open>\<^verbatim>\<open>str.split("\n")\<close>: the pieces between line feeds, of which there is always one.\<close>

fun split_acc :: "char \<Rightarrow> string \<Rightarrow> string \<Rightarrow> string list" where
  "split_acc sep cur [] = [rev cur]"
| "split_acc sep cur (c # cs) =
     (if c = sep then rev cur # split_acc sep [] cs else split_acc sep (c # cur) cs)"

definition py_split :: "char \<Rightarrow> string \<Rightarrow> string list" where
  "py_split sep s = split_acc sep [] s"

text \<open>\<^verbatim>\<open>str.lower()\<close> on one character: the capital letters of ASCII and of Latin-1.\<close>

definition upper_chars :: string where
  "upper_chars = ''ABCDEFGHIJKLMNOPQRSTUVWXYZ'' @
     [CHR 0xC0, CHR 0xC1, CHR 0xC2, CHR 0xC3, CHR 0xC4, CHR 0xC5, CHR 0xC6, CHR 0xC7,
      CHR 0xC8, CHR 0xC9, CHR 0xCA, CHR 0xCB, CHR 0xCC, CHR 0xCD, CHR 0xCE, CHR 0xCF,
      CHR 0xD0, CHR 0xD1, CHR 0xD2, CHR 0xD3, CHR 0xD4, CHR 0xD5, CHR 0xD6,
      CHR 0xD8, CHR 0xD9, CHR 0xDA, CHR 0xDB, CHR 0xDC, CHR 0xDD, CHR 0xDE]"

definition lower_chars :: string where
  "lower_chars = ''abcdefghijklmnopqrstuvwxyz'' @
     [CHR 0xE0, CHR 0xE1, CHR 0xE2, CHR 0xE3, CHR 0xE4, CHR 0xE5, CHR 0xE6, CHR 0xE7,
      CHR 0xE8, CHR 0xE9, CHR 0xEA, CHR 0xEB, CHR 0xEC, CHR 0xED, CHR 0xEE, CHR 0xEF,
      CHR 0xF0, CHR 0xF1, CHR 0xF2, CHR 0xF3, CHR 0xF4, CHR 0xF5, CHR 0xF6,
      CHR 0xF8, CHR 0xF9, CHR 0xFA, CHR 0xFB, CHR 0xFC, CHR 0xFD, CHR 0xFE]"

definition py_lower_char :: "char \<Rightarrow> char" where
  "py_lower_char c = (case map_of (zip upper_chars lower_chars) c of Some d \<Rightarrow> d | None \<Rightarrow> c)"

definition py_lower :: "string \<Rightarrow> string" where
  "py_lower s = map py_lower_char s"

definition digit_chars :: string where
  "digit_chars = ''0123456789''"

definition alpha_chars :: string where
  "alpha_chars = ''ABCDEFGHIJKLMNOPQRSTUVWXYZabcdefghijklmnopqrstuvwxyz''"

text \<open>
  The class \<^verbatim>\<open>\w\<close>, which decides \<^verbatim>\<open>\b\<close>: \<^verbatim>\<open>str.isalnum\<close> or the underscore. Below 256
  the alphanumeric characters outside ASCII are the Latin-1 letters and the characters
  for superscript digits and fractions.
\<close>

definition latin1_alnum :: "nat \<Rightarrow> bool" where
  "latin1_alnum n = (n \<in> set [170, 178, 179, 181, 185, 186, 188, 189, 190]
     \<or> (192 \<le> n \<and> n \<le> 214) \<or> (216 \<le> n \<and> n \<le> 246) \<or> (248 \<le> n \<and> n \<le> 255))"

definition is_word :: "char \<Rightarrow> bool" where
  "is_word c = (c \<in> set digit_chars \<or> c \<in> set alpha_chars \<or> c = CHR ''_''
     \<or> latin1_alnum (of_char c))"

text \<open>\<^verbatim>\<open>int(s)\<close> on a string of decimal digits, with the blanks around it stripped.\<close>

definition digit_val :: "char \<Rightarrow> nat" where
  "digit_val c = of_char c - 48"

definition int_of_digits :: "string \<Rightarrow> nat" where
  "int_of_digits s = foldl (\<lambda>n c. 10 * n + digit_val c) 0 s"

definition py_int :: "string \<Rightarrow> nat" where
  "py_int s = int_of_digits (py_strip s)"

section \<open>Regular expressions\<close>

text \<open>
  The patterns of the program use literals, character classes, bounded and unbounded
  repetition of one class (greedy, and lazy in one place), alternation, groups and
  \<^verbatim>\<open>\b\<close>. The matcher is a backtracking matcher in continuation style: it tries the
  alternatives in the order \<^verbatim>\<open>re\<close> does and returns the first match found.
  The flag \<open>ic\<close> is \<^verbatim>\<open>re.IGNORECASE\<close>; every class the program uses is closed under
  case, so the flag matters for literals only.
\<close>

datatype atom = Dot | Digit | Space | OneOf string

fun atom_ok :: "atom \<Rightarrow> char \<Rightarrow> bool" where
  "atom_ok Dot c = (c \<noteq> newline)"
| "atom_ok Digit c = (c \<in> set digit_chars)"
| "atom_ok Space c = is_space c"
| "atom_ok (OneOf cs) c = (c \<in> set cs)"

datatype rx =
    Eps
  | Lit string
  | Rep atom nat "nat option" bool
  | Seq rx rx
  | Alt rx rx
  | Grp nat rx
  | WordB

abbreviation One :: "atom \<Rightarrow> rx" where
  "One a \<equiv> Rep a 1 (Some 1) True"

fun seqs :: "rx list \<Rightarrow> rx" where
  "seqs [] = Eps"
| "seqs [r] = r"
| "seqs (r # rs) = Seq r (seqs rs)"

fun alts :: "rx list \<Rightarrow> rx" where
  "alts [] = Eps"
| "alts [r] = r"
| "alts (r # rs) = Alt r (alts rs)"

text \<open>
  A matcher state: the text already passed (reversed, last character first), the text
  ahead, and the groups closed so far.
\<close>

record mstate =
  seen :: string
  rest :: string
  groups :: "(nat \<times> string) list"

definition advance :: "nat \<Rightarrow> mstate \<Rightarrow> mstate" where
  "advance n s = s\<lparr>seen := rev (take n (rest s)) @ seen s, rest := drop n (rest s)\<rparr>"

definition ch_eq :: "bool \<Rightarrow> char \<Rightarrow> char \<Rightarrow> bool" where
  "ch_eq ic p c = (if ic then py_lower_char c = py_lower_char p else c = p)"

fun lit_match :: "bool \<Rightarrow> string \<Rightarrow> string \<Rightarrow> bool" where
  "lit_match ic [] s = True"
| "lit_match ic (p # ps) [] = False"
| "lit_match ic (p # ps) (c # cs) = (ch_eq ic p c \<and> lit_match ic ps cs)"

fun first_some :: "('a \<Rightarrow> 'b option) \<Rightarrow> 'a list \<Rightarrow> 'b option" where
  "first_some f [] = None"
| "first_some f (x # xs) = (case f x of Some y \<Rightarrow> Some y | None \<Rightarrow> first_some f xs)"

text \<open>
  The numbers of repetitions to try, in order: a greedy repetition tries the longest run
  first, a lazy one the shortest.
\<close>

definition rep_counts :: "atom \<Rightarrow> nat \<Rightarrow> nat option \<Rightarrow> bool \<Rightarrow> string \<Rightarrow> nat list" where
  "rep_counts a lo hi greedy s =
     (let avail = length (takeWhile (atom_ok a) (case hi of None \<Rightarrow> s | Some h \<Rightarrow> take h s));
          ns = [lo ..< Suc avail]
      in if greedy then rev ns else ns)"

definition at_boundary :: "mstate \<Rightarrow> bool" where
  "at_boundary s =
     ((case seen s of [] \<Rightarrow> False | c # _ \<Rightarrow> is_word c)
       \<noteq> (case rest s of [] \<Rightarrow> False | c # _ \<Rightarrow> is_word c))"

definition close_group :: "nat \<Rightarrow> mstate \<Rightarrow> mstate \<Rightarrow> mstate" where
  "close_group n s s' =
     s'\<lparr>groups := (n, take (length (rest s) - length (rest s')) (rest s)) # groups s'\<rparr>"

primrec rmatch :: "bool \<Rightarrow> rx \<Rightarrow> (mstate \<Rightarrow> mstate option) \<Rightarrow> mstate \<Rightarrow> mstate option" where
  "rmatch ic Eps k s = k s"
| "rmatch ic (Lit l) k s =
     (if lit_match ic l (rest s) then k (advance (length l) s) else None)"
| "rmatch ic (Rep a lo hi greedy) k s =
     first_some (\<lambda>n. k (advance n s)) (rep_counts a lo hi greedy (rest s))"
| "rmatch ic (Seq r1 r2) k s = rmatch ic r1 (rmatch ic r2 k) s"
| "rmatch ic (Alt r1 r2) k s =
     (case rmatch ic r1 k s of Some m \<Rightarrow> Some m | None \<Rightarrow> rmatch ic r2 k s)"
| "rmatch ic (Grp n r) k s = rmatch ic r (\<lambda>s'. k (close_group n s s')) s"
| "rmatch ic WordB k s = (if at_boundary s then k s else None)"

text \<open>\<^verbatim>\<open>re.match\<close>: a match at the start of the text.\<close>

definition re_match :: "bool \<Rightarrow> rx \<Rightarrow> string \<Rightarrow> mstate option" where
  "re_match ic r s = rmatch ic r Some \<lparr>seen = [], rest = s, groups = []\<rparr>"

text \<open>\<^verbatim>\<open>re.search\<close>: the match at the leftmost position that has one.\<close>

fun search_from :: "bool \<Rightarrow> rx \<Rightarrow> string \<Rightarrow> string \<Rightarrow> mstate option" where
  "search_from ic r sn [] = rmatch ic r Some \<lparr>seen = sn, rest = [], groups = []\<rparr>"
| "search_from ic r sn (c # cs) =
     (case rmatch ic r Some \<lparr>seen = sn, rest = c # cs, groups = []\<rparr> of
        Some m \<Rightarrow> Some m
      | None \<Rightarrow> search_from ic r (c # sn) cs)"

definition re_search :: "bool \<Rightarrow> rx \<Rightarrow> string \<Rightarrow> mstate option" where
  "re_search ic r s = search_from ic r [] s"


text \<open>
  \<^verbatim>\<open>match.group(n)\<close>. In every pattern of the program each group takes part in every
  match, so the group is always there.
\<close>

definition group :: "mstate \<Rightarrow> nat \<Rightarrow> string" where
  "group m n = (case map_of (groups m) n of Some g \<Rightarrow> g | None \<Rightarrow> [])"

section \<open>Dates\<close>

text \<open>
  A \<^verbatim>\<open>datetime\<close> value. \<open>utcoffset\<close> is \<open>None\<close> for a naive value and the offset from UTC
  in microseconds for an aware one. The constructor \<^verbatim>\<open>datetime(y, m, d)\<close> raises
  \<^verbatim>\<open>ValueError\<close> outside the calendar.
\<close>

record datetime =
  year :: nat
  month :: nat
  day :: nat
  hour :: nat
  minute :: nat
  second :: nat
  microsecond :: nat
  utcoffset :: "int option"

definition is_leap :: "nat \<Rightarrow> bool" where
  "is_leap y = (y mod 4 = 0 \<and> (y mod 100 \<noteq> 0 \<or> y mod 400 = 0))"

definition days_in_month :: "nat \<Rightarrow> nat \<Rightarrow> nat" where
  "days_in_month y m =
     (if m = 2 then (if is_leap y then 29 else 28)
      else if m = 4 \<or> m = 6 \<or> m = 9 \<or> m = 11 then 30 else 31)"

definition py_datetime :: "nat \<Rightarrow> nat \<Rightarrow> nat \<Rightarrow> pyerr + datetime" where
  "py_datetime y m d =
     (if 1 \<le> y \<and> y \<le> 9999 \<and> 1 \<le> m \<and> m \<le> 12 \<and> 1 \<le> d \<and> d \<le> days_in_month y m
      then Inr \<lparr>year = y, month = m, day = d, hour = 0, minute = 0, second = 0,
                microsecond = 0, utcoffset = None\<rparr>
      else Inl ValueError)"

text \<open>A naive date at midnight, as \<^verbatim>\<open>datetime(y, m, d)\<close> builds it.\<close>

definition naive_date :: "nat \<Rightarrow> nat \<Rightarrow> nat \<Rightarrow> datetime" where
  "naive_date y m d = \<lparr>year = y, month = m, day = d, hour = 0, minute = 0, second = 0,
                         microsecond = 0, utcoffset = None\<rparr>"

text \<open>\<^verbatim>\<open>try: ... except ValueError: pass\<close> around an expression: any other exception goes on.\<close>

fun except_ValueError :: "pyerr + 'a \<Rightarrow> pyerr + 'a option" where
  "except_ValueError (Inr x) = Inr (Some x)"
| "except_ValueError (Inl ValueError) = Inr None"
| "except_ValueError (Inl e) = Inl e"

subsection \<open>\<^verbatim>\<open>datetime.strptime\<close>\<close>

text \<open>
  \<^verbatim>\<open>strptime\<close> turns the format into a regular expression, matched with
  \<^verbatim>\<open>re.IGNORECASE\<close> at the start of the string: a directive becomes a named group, a run of
  blanks becomes \<^verbatim>\<open>\s+\<close>, any other character stands for itself. The whole string must be
  used up. Month names are those of the C locale, the longest first. A format is given
  here already cut into its items; the groups \<^verbatim>\<open>b\<close>/\<^verbatim>\<open>B\<close>, \<^verbatim>\<open>d\<close> and \<^verbatim>\<open>Y\<close> are numbered
  1, 2 and 3.
\<close>

definition a_month :: "string list" where
  "a_month = [''jan'', ''feb'', ''mar'', ''apr'', ''may'', ''jun'',
              ''jul'', ''aug'', ''sep'', ''oct'', ''nov'', ''dec'']"

definition f_month :: "string list" where
  "f_month = [''january'', ''february'', ''march'', ''april'', ''may'', ''june'',
              ''july'', ''august'', ''september'', ''october'', ''november'', ''december'']"

definition seqToRE :: "string list \<Rightarrow> rx" where
  "seqToRE names = alts (map Lit (rev (sort_key length (rev names))))"

datatype directive = Pb | PB | Pd | PY

datatype fmt_item = Dir directive | Blank | Chars string

definition nonzero_digits :: string where
  "nonzero_digits = ''123456789''"

fun directive_rx :: "directive \<Rightarrow> rx" where
  "directive_rx Pb = Grp 1 (seqToRE a_month)"
| "directive_rx PB = Grp 1 (seqToRE f_month)"
| "directive_rx Pd = Grp 2 (alts
     [Seq (Lit ''3'') (One (OneOf ''01'')),
      Seq (One (OneOf ''12'')) (One Digit),
      Seq (Lit ''0'') (One (OneOf nonzero_digits)),
      One (OneOf nonzero_digits),
      Seq (Lit '' '') (One (OneOf nonzero_digits))])"
| "directive_rx PY = Grp 3 (Rep Digit 4 (Some 4) True)"

fun item_rx :: "fmt_item \<Rightarrow> rx" where
  "item_rx (Dir d) = directive_rx d"
| "item_rx Blank = Rep Space 1 None True"
| "item_rx (Chars cs) = Lit cs"

fun index_of :: "'a \<Rightarrow> 'a list \<Rightarrow> nat" where
  "index_of x [] = 0"
| "index_of x (y # ys) = (if x = y then 0 else Suc (index_of x ys))"

definition strptime :: "string \<Rightarrow> fmt_item list \<Rightarrow> pyerr + datetime" where
  "strptime s fmt =
     (case re_match True (seqs (map item_rx fmt)) s of
        None \<Rightarrow> Inl ValueError
      | Some m \<Rightarrow>
          if rest m \<noteq> [] then Inl ValueError
          else py_datetime
            (if Dir PY \<in> set fmt then py_int (group m 3) else 1900)
            (if Dir Pb \<in> set fmt then Suc (index_of (py_lower (group m 1)) a_month)
             else if Dir PB \<in> set fmt then Suc (index_of (py_lower (group m 1)) f_month)
             else 1)
            (if Dir Pd \<in> set fmt then py_int (group m 2) else 1))"

text \<open>The formats of the program.\<close>

definition fmt_b_d_comma_Y :: "fmt_item list" where
  "fmt_b_d_comma_Y = [Dir Pb, Blank, Dir Pd, Chars '','', Blank, Dir PY]"

definition fmt_B_Y :: "fmt_item list" where
  "fmt_B_Y = [Dir PB, Blank, Dir PY]"

definition fmt_b_Y :: "fmt_item list" where
  "fmt_b_Y = [Dir Pb, Blank, Dir PY]"

definition fmt_B_d_Y :: "fmt_item list" where
  "fmt_B_d_Y = [Dir PB, Blank, Dir Pd, Blank, Dir PY]"

definition fmt_b_d_Y :: "fmt_item list" where
  "fmt_b_d_Y = [Dir Pb, Blank, Dir Pd, Blank, Dir PY]"

section \<open>Date extraction\<close>

subsection \<open>From the filename\<close>

definition rx_year :: rx where
  "rx_year = Grp 1 (Rep Digit 4 (Some 4) True)"

definition rx_full_date :: rx where
  "rx_full_date = seqs
     [Grp 1 (Rep Digit 4 (Some 4) True), One (OneOf ''-_''),
      Grp 2 (Rep Digit 2 (Some 2) True), One (OneOf ''-_''),
      Grp 3 (Rep Digit 2 (Some 2) True)]"

definition rx_month_year :: rx where
  "rx_month_year = seqs
     [Grp 1 (Rep (OneOf alpha_chars) 3 (Some 9) True), One (OneOf ''-_''),
      Grp 2 (Rep Digit 4 (Some 4) True)]"

definition month_map :: "(string \<times> nat) list" where
  "month_map = [(''jan'', 1), (''feb'', 2), (''mar'', 3), (''apr'', 4),
                (''may'', 5), (''jun'', 6), (''jul'', 7), (''aug'', 8),
                (''sep'', 9), (''oct'', 10), (''nov'', 11), (''dec'', 12)]"

definition filename_pattern1 :: "string \<Rightarrow> pyerr + datetime option" where
  "filename_pattern1 filename =
     (case re_search False rx_year filename of
        None \<Rightarrow> Inr None
      | Some m \<Rightarrow>
          (let year = py_int (group m 1) in
           if 2000 \<le> year \<and> year \<le> 2099
           then (case py_datetime year 1 1 of Inl e \<Rightarrow> Inl e | Inr d \<Rightarrow> Inr (Some d))
           else Inr None))"

definition filename_pattern2 :: "string \<Rightarrow> pyerr + datetime option" where
  "filename_pattern2 filename =
     (case re_search False rx_full_date filename of
        None \<Rightarrow> Inr None
      | Some m \<Rightarrow>
          except_ValueError
            (py_datetime (py_int (group m 1)) (py_int (group m 2)) (py_int (group m 3))))"

definition filename_pattern3 :: "string \<Rightarrow> pyerr + datetime option" where
  "filename_pattern3 filename =
     (case re_search False rx_month_year (py_lower filename) of
        None \<Rightarrow> Inr None
      | Some m \<Rightarrow>
          (let month_str = take 3 (group m 1); year = py_int (group m 2) in
           if month_str \<in> fst ` set month_map \<and> 2000 \<le> year \<and> year \<le> 2099
           then (case map_of month_map month_str of
                   None \<Rightarrow> Inl KeyError
                 | Some mo \<Rightarrow>
                     (case py_datetime year mo 1 of Inl e \<Rightarrow> Inl e | Inr d \<Rightarrow> Inr (Some d)))
           else Inr None))"

text \<open>
  \<^verbatim>\<open>extract_date_from_filename\<close>: the three patterns in the order of the source; a
  pattern that returns ends the function.
\<close>

definition extract_date_from_filename :: "string \<Rightarrow> pyerr + datetime option" where
  "extract_date_from_filename filename =
     (case filename_pattern1 filename of
        Inl e \<Rightarrow> Inl e
      | Inr (Some d) \<Rightarrow> Inr (Some d)
      | Inr None \<Rightarrow>
          (case filename_pattern2 filename of
             Inl e \<Rightarrow> Inl e
           | Inr (Some d) \<Rightarrow> Inr (Some d)
           | Inr None \<Rightarrow> filename_pattern3 filename))"

subsection \<open>From the content\<close>

definition rx_month_day_year :: rx where
  "rx_month_day_year = seqs
     [Rep (OneOf alpha_chars) 1 None True, Rep Space 1 None True,
      Rep Digit 1 (Some 2) True, Lit '','', Rep Space 1 None True,
      Rep Digit 4 (Some 4) True]"

definition rx_effective :: rx where
  "rx_effective = seqs
     [Lit ''Effective Date:'', Rep Space 0 None True, Grp 1 rx_month_day_year]"

definition rx_effective_paren :: rx where
  "rx_effective_paren = seqs
     [Lit ''(Effective Date:'', Rep Space 0 None True, Grp 1 rx_month_day_year, Lit '')'']"

definition rx_updated :: rx where
  "rx_updated = seqs
     [Alt (Lit ''Updated'') (Lit ''Last Updated''), Lit '':'', Rep Space 0 None True,
      Grp 1 (seqs [Rep (OneOf alpha_chars) 1 None True, Rep Space 1 None True,
                   Rep Digit 4 (Some 4) True])]"

text \<open>In the next pattern \<^verbatim>\<open>\d{1,2}?\<close> is the lazy repetition of one or two digits.\<close>

definition rx_as_of :: rx where
  "rx_as_of = seqs
     [alts [Lit ''As of'', Lit ''Valid from'', Lit ''Issued''], Lit '':'',
      Rep Space 0 None True,
      Grp 1 (seqs [Rep (OneOf alpha_chars) 1 None True, Rep Space 1 None True,
                   Rep Digit 1 (Some 2) False, Rep (OneOf '','') 0 (Some 1) True,
                   Rep Space 1 None True, Rep Digit 4 (Some 4) True])]"

definition rx_year_20 :: rx where
  "rx_year_20 = seqs [WordB, Grp 1 (Seq (Lit ''20'') (Rep Digit 2 (Some 2) True)), WordB]"

definition content_pattern1 :: "string \<Rightarrow> pyerr + datetime option" where
  "content_pattern1 txt =
     (case re_search True rx_effective txt of
        None \<Rightarrow> Inr None
      | Some m \<Rightarrow> except_ValueError (strptime (group m 1) fmt_b_d_comma_Y))"

definition content_pattern2 :: "string \<Rightarrow> pyerr + datetime option" where
  "content_pattern2 txt =
     (case re_search True rx_effective_paren txt of
        None \<Rightarrow> Inr None
      | Some m \<Rightarrow> except_ValueError (strptime (group m 1) fmt_b_d_comma_Y))"

definition content_pattern3 :: "string \<Rightarrow> pyerr + datetime option" where
  "content_pattern3 txt =
     (case re_search True rx_updated txt of
        None \<Rightarrow> Inr None
      | Some m \<Rightarrow>
          (case except_ValueError (strptime (group m 1) fmt_B_Y) of
             Inl e \<Rightarrow> Inl e
           | Inr (Some d) \<Rightarrow> Inr (Some d)
           | Inr None \<Rightarrow> except_ValueError (strptime (group m 1) fmt_b_Y)))"

text \<open>The loop over the four formats: the first that parses returns.\<close>

fun try_formats :: "string \<Rightarrow> fmt_item list list \<Rightarrow> pyerr + datetime option" where
  "try_formats date_str [] = Inr None"
| "try_formats date_str (fmt # fmts) =
     (case except_ValueError (strptime date_str fmt) of
        Inl e \<Rightarrow> Inl e
      | Inr (Some d) \<Rightarrow> Inr (Some d)
      | Inr None \<Rightarrow> try_formats date_str fmts)"

definition content_pattern4 :: "string \<Rightarrow> pyerr + datetime option" where
  "content_pattern4 txt =
     (case re_search True rx_as_of txt of
        None \<Rightarrow> Inr None
      | Some m \<Rightarrow>
          (let date_str = py_strip (filter (\<lambda>c. c \<noteq> CHR '','') (group m 1))
           in try_formats date_str [fmt_B_d_Y, fmt_b_d_Y, fmt_B_Y, fmt_b_Y]))"

definition content_pattern5 :: "string \<Rightarrow> pyerr + datetime option" where
  "content_pattern5 txt =
     (let first_200_chars = take 200 txt in
      case re_search False rx_year_20 first_200_chars of
        None \<Rightarrow> Inr None
      | Some m \<Rightarrow>
          (case py_datetime (py_int (group m 1)) 1 1 of
             Inl e \<Rightarrow> Inl e
           | Inr d \<Rightarrow> Inr (Some d)))"

text \<open>
  \<^verbatim>\<open>extract_date_from_content\<close>: the five patterns in the order of the source.
\<close>

fun first_result :: "(string \<Rightarrow> pyerr + datetime option) list \<Rightarrow> string
    \<Rightarrow> pyerr + datetime option" where
  "first_result [] txt = Inr None"
| "first_result (p # ps) txt =
     (case p txt of
        Inl e \<Rightarrow> Inl e
      | Inr (Some d) \<Rightarrow> Inr (Some d)
      | Inr None \<Rightarrow> first_result ps txt)"

definition extract_date_from_content :: "string \<Rightarrow> pyerr + datetime option" where
  "extract_date_from_content txt =
     first_result [content_pattern1, content_pattern2, content_pattern3,
                   content_pattern4, content_pattern5] txt"

subsection \<open>The chain of strategies\<close>

text \<open>
  The file system as the program sees it: whether a path exists, the modification time
  of an existing file as \<^verbatim>\<open>get_file_modification_date\<close> returns it (the call of the
  operating system and the conversion of its time stamp are taken to succeed), the names
  in a directory and the text of a file (both may raise).
\<close>

record filesystem =
  path_exists :: "string \<Rightarrow> bool"
  modification_date :: "string \<Rightarrow> datetime"
  listdir :: "string \<Rightarrow> pyerr + string list"
  read_text :: "string \<Rightarrow> pyerr + string"

definition get_file_modification_date :: "filesystem \<Rightarrow> string \<Rightarrow> datetime" where
  "get_file_modification_date fs filepath = modification_date fs filepath"

definition epoch_date :: datetime where
  "epoch_date = \<lparr>year = 1970, month = 1, day = 1, hour = 0, minute = 0, second = 0,
                  microsecond = 0, utcoffset = None\<rparr>"

text \<open>
  \<^verbatim>\<open>extract_effective_date\<close>. The optional \<^verbatim>\<open>filepath\<close> is \<open>None\<close> when not supplied;
  \<^verbatim>\<open>if filepath and ...\<close> is false for \<^verbatim>\<open>None\<close> and for the empty string. The last resort
  \<^verbatim>\<open>datetime(1970, 1, 1)\<close> is a call of the constructor like the others.
\<close>

definition extract_effective_date
    :: "filesystem \<Rightarrow> string \<Rightarrow> string \<Rightarrow> string option \<Rightarrow> pyerr + datetime" where
  "extract_effective_date fs txt filename filepath =
     (case extract_date_from_content txt of
        Inl e \<Rightarrow> Inl e
      | Inr (Some content_date) \<Rightarrow> Inr content_date
      | Inr None \<Rightarrow>
          (case extract_date_from_filename filename of
             Inl e \<Rightarrow> Inl e
           | Inr (Some filename_date) \<Rightarrow> Inr filename_date
           | Inr None \<Rightarrow>
               (case filepath of
                  Some fp \<Rightarrow>
                    if fp \<noteq> [] \<and> path_exists fs fp
                    then Inr (get_file_modification_date fs fp)
                    else py_datetime 1970 1 1
                | None \<Rightarrow> py_datetime 1970 1 1)))"

section \<open>Data model\<close>

text \<open>
  A metadata dictionary is a Python object: documents and chunks hold a reference to
  it, and the store maps references to dictionaries. \<^verbatim>\<open>dict.copy()\<close> allocates a new
  object. References are indices into the store. A dictionary is the list of its items,
  read with \<open>map_of\<close>.
\<close>

type_synonym dict = "(string \<times> string) list"
type_synonym ref = nat
type_synonym store = "dict list"

record Document =
  content :: string
  doc_metadata :: ref

record Chunk =
  chunk_text :: string
  metadata :: ref

definition dict_copy :: "store \<Rightarrow> ref \<Rightarrow> ref \<times> store" where
  "dict_copy h r = (length h, h @ [h ! r])"

text \<open>\<^verbatim>\<open>d.get(k)\<close> and \<^verbatim>\<open>d[k]\<close>.\<close>

definition dict_get :: "store \<Rightarrow> ref \<Rightarrow> string \<Rightarrow> string option" where
  "dict_get h r k = map_of (h ! r) k"

definition dict_item :: "store \<Rightarrow> ref \<Rightarrow> string \<Rightarrow> pyerr + string" where
  "dict_item h r k = (case map_of (h ! r) k of None \<Rightarrow> Inl KeyError | Some v \<Rightarrow> Inr v)"

section \<open>Chunking\<close>

definition CHUNK_SIZE :: nat where
  "CHUNK_SIZE = 500"

text \<open>The stripped non-blank lines of the content.\<close>

definition paragraphs :: "string \<Rightarrow> string list" where
  "paragraphs s = [py_strip p. p \<leftarrow> py_split newline s, py_strip p \<noteq> []]"

text \<open>
  The loop over the paragraphs of one document. Its state is the buffer, the list of
  chunks and the store; \<open>md\<close> is the document's metadata dictionary, copied for every chunk.
\<close>

fun chunk_loop :: "ref \<Rightarrow> string list \<Rightarrow> string \<Rightarrow> Chunk list \<Rightarrow> store
    \<Rightarrow> string \<times> Chunk list \<times> store" where
  "chunk_loop md [] buffer chunks h = (buffer, chunks, h)"
| "chunk_loop md (para # ps) buffer chunks h =
     (if length buffer + length para \<le> CHUNK_SIZE
      then chunk_loop md ps (buffer @ '' '' @ para) chunks h
      else (case dict_copy h md of
              (r, h') \<Rightarrow>
                chunk_loop md ps para
                  (chunks @ [\<lparr>chunk_text = py_strip buffer, metadata = r\<rparr>]) h'))"

definition chunk_document :: "Document \<Rightarrow> Chunk list \<Rightarrow> store \<Rightarrow> Chunk list \<times> store" where
  "chunk_document doc chunks h =
     (case chunk_loop (doc_metadata doc) (paragraphs (content doc)) [] chunks h of
        (buffer, chunks', h') \<Rightarrow>
          if buffer \<noteq> []
          then (case dict_copy h' (doc_metadata doc) of
                  (r, h'') \<Rightarrow>
                    (chunks' @ [\<lparr>chunk_text = py_strip buffer, metadata = r\<rparr>], h''))
          else (chunks', h'))"

fun chunk_docs_loop :: "Document list \<Rightarrow> Chunk list \<Rightarrow> store \<Rightarrow> Chunk list \<times> store" where
  "chunk_docs_loop [] chunks h = (chunks, h)"
| "chunk_docs_loop (doc # docs) chunks h =
     (case chunk_document doc chunks h of (chunks', h') \<Rightarrow> chunk_docs_loop docs chunks' h')"

definition chunk_documents :: "store \<Rightarrow> Document list \<Rightarrow> Chunk list \<times> store" where
  "chunk_documents h documents = chunk_docs_loop documents [] h"

section \<open>Noise filtering\<close>

text \<open>
  \<^verbatim>\<open>filter_noise\<close>: the list comprehension keeping the chunks whose \<^verbatim>\<open>doc_type\<close> is
  \<^verbatim>\<open>"policy"\<close>. It builds a new list and writes to no dictionary, so it takes the store
  and returns only the list.
\<close>

definition is_policy :: "store \<Rightarrow> Chunk \<Rightarrow> bool" where
  "is_policy h c = (dict_get h (metadata c) ''doc_type'' = Some ''policy'')"

definition filter_noise :: "store \<Rightarrow> Chunk list \<Rightarrow> Chunk list" where
  "filter_noise h chunks = [chunk \<leftarrow> chunks. is_policy h chunk]"

text \<open>The number the function prints as filtered: \<^verbatim>\<open>len(chunks) - len(filtered)\<close>.\<close>

definition filter_noise_dropped :: "store \<Rightarrow> Chunk list \<Rightarrow> nat" where
  "filter_noise_dropped h chunks = length chunks - length (filter_noise h chunks)"

section \<open>Conflict resolution\<close>

text \<open>
  Comparison of two \<^verbatim>\<open>datetime\<close> values: two naive values compare by their fields, two
  aware values by their instants, and a naive with an aware one raises \<^verbatim>\<open>TypeError\<close>.
\<close>

definition dt_fields :: "datetime \<Rightarrow> nat list" where
  "dt_fields d = [year d, month d, day d, hour d, minute d, second d, microsecond d]"

definition days_before_year :: "nat \<Rightarrow> int" where
  "days_before_year y =
     (let p = int y - 1 in p * 365 + p div 4 - p div 100 + p div 400)"

definition days_before_month :: "nat \<Rightarrow> nat \<Rightarrow> int" where
  "days_before_month y m = int (sum_list (map (days_in_month y) [1 ..< m]))"

definition utc_micros :: "datetime \<Rightarrow> int" where
  "utc_micros d =
     ((((days_before_year (year d) + days_before_month (year d) (month d) + int (day d)) * 24
         + int (hour d)) * 60 + int (minute d)) * 60 + int (second d)) * 1000000
       + int (microsecond d)
       - (case utcoffset d of None \<Rightarrow> 0 | Some off \<Rightarrow> off)"

definition dt_less :: "datetime \<Rightarrow> datetime \<Rightarrow> pyerr + bool" where
  "dt_less a b =
     (case (utcoffset a, utcoffset b) of
        (None, None) \<Rightarrow> Inr (dt_fields a < dt_fields b)
      | (Some _, Some _) \<Rightarrow> Inr (utc_micros a < utc_micros b)
      | _ \<Rightarrow> Inl TypeError)"

text \<open>
  \<^verbatim>\<open>list.sort(key=..., reverse=True)\<close> on the dated pairs. The sort is stable, also when
  reversed: pairs with equal dates keep their order. It compares dates only, and it
  raises \<^verbatim>\<open>TypeError\<close> as soon as a naive date meets an aware one, which any list holding
  both makes it do. Where it returns, its result is that of the insertion below, which
  puts a pair behind every pair that is not older.
\<close>

definition is_older :: "datetime \<Rightarrow> datetime \<Rightarrow> bool" where
  "is_older a b = (dt_less a b = Inr True)"

fun insert_newest_first :: "datetime \<times> Chunk \<Rightarrow> (datetime \<times> Chunk) list
    \<Rightarrow> (datetime \<times> Chunk) list" where
  "insert_newest_first x [] = [x]"
| "insert_newest_first x (y # ys) =
     (if is_older (fst x) (fst y) then y # insert_newest_first x ys else x # y # ys)"

definition comparable :: "datetime list \<Rightarrow> bool" where
  "comparable ds =
     (list_all (\<lambda>d. utcoffset d = None) ds \<or> list_all (\<lambda>d. utcoffset d \<noteq> None) ds)"

definition sort_newest_first :: "(datetime \<times> Chunk) list \<Rightarrow> pyerr + (datetime \<times> Chunk) list" where
  "sort_newest_first xs =
     (if comparable (map fst xs) then Inr (foldr insert_newest_first xs []) else Inl TypeError)"

text \<open>
  The loop that collects the dated chunks. \<open>fromisoformat\<close> stands for
  \<^verbatim>\<open>datetime.fromisoformat\<close>, with \<open>None\<close> for its \<^verbatim>\<open>ValueError\<close>; the strings it accepts depend
  on the version of Python, so it is a parameter. An empty string is skipped by
  \<^verbatim>\<open>if effective_date_str\<close>. After a date has parsed, the line that prints it reads
  \<^verbatim>\<open>chunk.metadata['filename']\<close>, a \<^verbatim>\<open>KeyError\<close> that \<^verbatim>\<open>except ValueError\<close> does not catch.
\<close>

fun collect_dated :: "(string \<Rightarrow> datetime option) \<Rightarrow> store \<Rightarrow> Chunk list
    \<Rightarrow> (datetime \<times> Chunk) list \<Rightarrow> pyerr + (datetime \<times> Chunk) list" where
  "collect_dated fromisoformat h [] policies_with_dates = Inr policies_with_dates"
| "collect_dated fromisoformat h (chunk # chunks) policies_with_dates =
     (case dict_get h (metadata chunk) ''effective_date'' of
        None \<Rightarrow> collect_dated fromisoformat h chunks policies_with_dates
      | Some effective_date_str \<Rightarrow>
          if effective_date_str = [] then collect_dated fromisoformat h chunks policies_with_dates
          else (case fromisoformat effective_date_str of
                  None \<Rightarrow> collect_dated fromisoformat h chunks policies_with_dates
                | Some effective_date \<Rightarrow>
                    (case dict_item h (metadata chunk) ''filename'' of
                       Inl e \<Rightarrow> Inl e
                     | Inr _ \<Rightarrow>
                         collect_dated fromisoformat h chunks
                           (policies_with_dates @ [(effective_date, chunk)]))))"

definition resolve_policy_conflicts :: "(string \<Rightarrow> datetime option) \<Rightarrow> store \<Rightarrow> Chunk list
    \<Rightarrow> pyerr + Chunk" where
  "resolve_policy_conflicts fromisoformat h chunks =
     (case collect_dated fromisoformat h chunks [] of
        Inl e \<Rightarrow> Inl e
      | Inr policies_with_dates \<Rightarrow>
          if policies_with_dates = []
          then (case chunks of [] \<Rightarrow> Inl IndexError | c # _ \<Rightarrow> Inr c)
          else (case sort_newest_first policies_with_dates of
                  Inl e \<Rightarrow> Inl e
                | Inr [] \<Rightarrow> Inl IndexError
                | Inr (most_recent # _) \<Rightarrow> Inr (snd most_recent)))"

section \<open>Answer generation\<close>

text \<open>
  \<^verbatim>\<open>re.sub(pattern, "", s)\<close>: every match, from left to right, is cut out, and the search
  goes on behind it. The pattern of the program matches at least eight characters; at a
  position where a match is empty the character is kept.
\<close>

fun re_sub_remove :: "bool \<Rightarrow> rx \<Rightarrow> string \<Rightarrow> string \<Rightarrow> string" where
  "re_sub_remove ic r sn [] = []"
| "re_sub_remove ic r sn (c # cs) =
     (case rmatch ic r Some \<lparr>seen = sn, rest = c # cs, groups = []\<rparr> of
        None \<Rightarrow> c # re_sub_remove ic r (c # sn) cs
      | Some m \<Rightarrow>
          (let n = Suc (length cs) - length (rest m) in
           if n = 0 then c # re_sub_remove ic r (c # sn) cs
           else re_sub_remove ic r (rev (take n (c # cs)) @ sn) (drop (n - 1) cs)))"

definition rx_sources :: rx where
  "rx_sources = Seq (Lit ''Sources:'') (Rep Dot 0 None True)"

text \<open>The prompt, an f-string over the chunk's text and the query.\<close>

definition prompt_head :: "string list" where
  "prompt_head =
     [''You are an HR policy assistant.'', [], ''Rules:'',
      ''- Use ONLY the policy text below.'',
      ''- Prefer the most recent policy.'',
      ''- Ignore irrelevant documents.'',
      ''- Answer clearly and concisely.'',
      ''- Always cite the filename.'',
      ''- DO NOT invent source names.'',
      ''- The source filename will be provided programmatically.'',
      [], ''Policy Text:'']"

definition build_prompt :: "string \<Rightarrow> string \<Rightarrow> string" where
  "build_prompt policy_text query =
     concat (map (\<lambda>l. l @ [newline])
       (prompt_head @ [policy_text, [], ''Question:'', query, [],
          ''Answer format:'', ''<answer>'', ''Sources: <filename>'']))"

text \<open>
  \<^verbatim>\<open>generate_answer\<close>. The language model is a collaborator: a function from the prompt
  to its reply, which may raise. The list of prompts sent so far is threaded through,
  so that a call of the model is visible in the result.
\<close>

definition generate_answer :: "(string \<Rightarrow> pyerr + string) \<Rightarrow> store \<Rightarrow> Chunk \<Rightarrow> string
    \<Rightarrow> string list \<Rightarrow> (pyerr + string) \<times> string list" where
  "generate_answer llm_invoke h policy_chunk query calls =
     (let prompt = build_prompt (chunk_text policy_chunk) query;
          calls' = calls @ [prompt]
      in case llm_invoke prompt of
           Inl e \<Rightarrow> (Inl e, calls')
         | Inr reply \<Rightarrow>
             (let response = py_strip reply;
                  response = py_strip (re_sub_remove False rx_sources [] response)
              in case dict_item h (metadata policy_chunk) ''filename'' of
                   Inl e \<Rightarrow> (Inl e, calls')
                 | Inr filename \<Rightarrow>
                     (Inr (response @ [newline] @ ''Sources: '' @ filename), calls')))"

section \<open>Ingestion and orchestration\<close>

definition KNOWLEDGE_BASE_DIR :: string where
  "KNOWLEDGE_BASE_DIR = ''knowledge_base''"

definition TOP_K :: nat where
  "TOP_K = 4"

fun contains :: "string \<Rightarrow> string \<Rightarrow> bool" where
  "contains sub [] = (sub = [])"
| "contains sub (c # cs) = (prefix sub (c # cs) \<or> contains sub cs)"

definition classify_document :: "string \<Rightarrow> string" where
  "classify_document filename =
     (if contains ''policy'' (py_lower filename) then ''policy'' else ''noise'')"

text \<open>\<^verbatim>\<open>str(n)\<close>, zero padding as in \<^verbatim>\<open>%02d\<close>, and \<^verbatim>\<open>datetime.isoformat()\<close>.\<close>

fun digits_of :: "nat \<Rightarrow> string" where
  "digits_of n =
     (if n < 10 then [digit_chars ! n] else digits_of (n div 10) @ [digit_chars ! (n mod 10)])"

definition zpad :: "nat \<Rightarrow> nat \<Rightarrow> string" where
  "zpad w n = replicate (w - length (digits_of n)) (CHR ''0'') @ digits_of n"

definition format_offset :: "int option \<Rightarrow> string" where
  "format_offset off =
     (case off of
        None \<Rightarrow> []
      | Some v \<Rightarrow>
          (let a = nat (abs v);
               ss = (a div 1000000) mod 60;
               us = a mod 1000000
           in (if v < 0 then ''-'' else ''+'')
              @ zpad 2 (a div 3600000000) @ '':'' @ zpad 2 ((a div 60000000) mod 60)
              @ (if ss \<noteq> 0 \<or> us \<noteq> 0
                 then '':'' @ zpad 2 ss @ (if us \<noteq> 0 then ''.'' @ zpad 6 us else [])
                 else [])))"

definition isoformat :: "datetime \<Rightarrow> string" where
  "isoformat d =
     zpad 4 (year d) @ ''-'' @ zpad 2 (month d) @ ''-'' @ zpad 2 (day d) @ ''T''
     @ zpad 2 (hour d) @ '':'' @ zpad 2 (minute d) @ '':'' @ zpad 2 (second d)
     @ (if microsecond d \<noteq> 0 then ''.'' @ zpad 6 (microsecond d) else [])
     @ format_offset (utcoffset d)"

text \<open>
  \<^verbatim>\<open>load_documents\<close>: the loop over the names in the knowledge base. Each document gets a
  new metadata dictionary. \<open>load_file\<close> is the body of the loop for a name that ends in
  \<^verbatim>\<open>.txt\<close>.
\<close>

definition load_file :: "filesystem \<Rightarrow> string \<Rightarrow> Document list \<Rightarrow> store
    \<Rightarrow> pyerr + Document list \<times> store" where
  "load_file fs filename documents h =
     (let path = KNOWLEDGE_BASE_DIR @ ''/'' @ filename in
      case read_text fs path of
        Inl e \<Rightarrow> Inl e
      | Inr txt \<Rightarrow>
          (case extract_effective_date fs txt filename (Some path) of
             Inl e \<Rightarrow> Inl e
           | Inr effective_date \<Rightarrow>
               Inr (documents @ [\<lparr>content = txt, doc_metadata = length h\<rparr>],
                    h @ [[(''filename'', filename),
                          (''doc_type'', classify_document filename),
                          (''effective_date'', isoformat effective_date),
                          (''effective_year'', digits_of (year effective_date))]])))"

fun load_loop :: "filesystem \<Rightarrow> string list \<Rightarrow> Document list \<Rightarrow> store
    \<Rightarrow> pyerr + Document list \<times> store" where
  "load_loop fs [] documents h = Inr (documents, h)"
| "load_loop fs (filename # names) documents h =
     (if \<not> suffix ''.txt'' filename then load_loop fs names documents h
      else (case load_file fs filename documents h of
              Inl e \<Rightarrow> Inl e
            | Inr (documents', h') \<Rightarrow> load_loop fs names documents' h'))"

definition load_documents :: "filesystem \<Rightarrow> store \<Rightarrow> pyerr + Document list \<times> store" where
  "load_documents fs h =
     (case listdir fs KNOWLEDGE_BASE_DIR of
        Inl e \<Rightarrow> Inl e
      | Inr names \<Rightarrow> load_loop fs names [] h)"

text \<open>
  The collaborators of the pipeline: the vector index of type \<open>'vs\<close> (whether its
  directory exists, loading it, building it from chunks, querying it), the language
  model and \<^verbatim>\<open>datetime.fromisoformat\<close>. Each call may raise. A query returns the texts of the
  documents found with references to their metadata dictionaries, in a store that holds
  them.
\<close>

record 'vs world =
  files :: filesystem
  index_dir_exists :: bool
  load_vector_store :: "pyerr + 'vs"
  build_vector_store :: "store \<Rightarrow> Chunk list \<Rightarrow> pyerr + 'vs"
  similarity_search :: "'vs \<Rightarrow> store \<Rightarrow> string \<Rightarrow> nat \<Rightarrow> pyerr + (string \<times> ref) list \<times> store"
  llm_invoke :: "string \<Rightarrow> pyerr + string"
  fromisoformat :: "string \<Rightarrow> datetime option"

definition retrieve_chunks :: "'vs world \<Rightarrow> 'vs \<Rightarrow> store \<Rightarrow> string \<Rightarrow> nat
    \<Rightarrow> pyerr + Chunk list \<times> store" where
  "retrieve_chunks w vector_store h query k =
     (case similarity_search w vector_store h query k of
        Inl e \<Rightarrow> Inl e
      | Inr (docs, h') \<Rightarrow>
          Inr ([\<lparr>chunk_text = fst doc, metadata = snd doc\<rparr>. doc \<leftarrow> docs], h'))"

text \<open>The first part of \<^verbatim>\<open>run_pipeline\<close>: the index is loaded if it exists and built if not.\<close>

definition obtain_vector_store :: "'vs world \<Rightarrow> store \<Rightarrow> pyerr + 'vs \<times> store" where
  "obtain_vector_store w h =
     (if index_dir_exists w
      then (case load_vector_store w of Inl e \<Rightarrow> Inl e | Inr vs \<Rightarrow> Inr (vs, h))
      else (case load_documents (files w) h of
              Inl e \<Rightarrow> Inl e
            | Inr (documents, h1) \<Rightarrow>
                (case chunk_documents h1 documents of
                   (chunks, h2) \<Rightarrow>
                     (case build_vector_store w h2 chunks of
                        Inl e \<Rightarrow> Inl e
                      | Inr vs \<Rightarrow> Inr (vs, h2)))))"

text \<open>
  What \<^verbatim>\<open>run_pipeline\<close> prints at its end: the notice that no policy document is
  relevant, or the final answer. The function returns \<^verbatim>\<open>None\<close> in both cases; the result
  here is what it printed, or the exception that ended it, with the prompts sent to the
  language model.
\<close>

datatype report = NoRelevantPolicyDocuments | FinalAnswer string

definition run_pipeline :: "'vs world \<Rightarrow> store \<Rightarrow> string \<Rightarrow> (pyerr + report) \<times> string list" where
  "run_pipeline w h query =
     (case obtain_vector_store w h of
        Inl e \<Rightarrow> (Inl e, [])
      | Inr (vector_store, h') \<Rightarrow>
          (case retrieve_chunks w vector_store h' query TOP_K of
             Inl e \<Rightarrow> (Inl e, [])
           | Inr (retrieved, h'') \<Rightarrow>
               (let filtered = filter_noise h'' retrieved in
                if filtered = [] then (Inr NoRelevantPolicyDocuments, [])
                else
                  (case resolve_policy_conflicts (fromisoformat w) h'' filtered of
                     Inl e \<Rightarrow> (Inl e, [])
                   | Inr authoritative_policy \<Rightarrow>
                       (case generate_answer (llm_invoke w) h'' authoritative_policy query [] of
                          (Inl e, calls) \<Rightarrow> (Inl e, calls)
                        | (Inr answer, calls) \<Rightarrow> (Inr (FinalAnswer answer), calls))))))"

section \<open>Concrete inputs\<close>

text \<open>
  A world whose index holds two chunks of documents that are not policies, with a
  language model that would answer if asked.
\<close>

definition quiet_fs :: filesystem where
  "quiet_fs = \<lparr>path_exists = (\<lambda>p. False), modification_date = (\<lambda>p. epoch_date),
     listdir = (\<lambda>d. Inl ExternalError), read_text = (\<lambda>p. Inl ExternalError)\<rparr>"

definition noise_store :: store where
  "noise_store = [[(''filename'', ''lunch_menu.txt''), (''doc_type'', ''noise'')],
                  [(''filename'', ''readme.txt''), (''doc_type'', ''noise'')]]"

definition noise_index :: "(string \<times> ref) list" where
  "noise_index = [(''Team lunch is on Friday.'', 0), (''Read me first.'', 1)]"

definition noise_chunks :: "Chunk list" where
  "noise_chunks = [\<lparr>chunk_text = ''Team lunch is on Friday.'', metadata = 0\<rparr>,
                   \<lparr>chunk_text = ''Read me first.'', metadata = 1\<rparr>]"

definition noise_world :: "(string \<times> ref) list world" where
  "noise_world = \<lparr>files = quiet_fs, index_dir_exists = True,
     load_vector_store = Inr noise_index,
     build_vector_store = (\<lambda>h chunks. Inl ExternalError),
     similarity_search = (\<lambda>vs h q k. Inr (take k vs, h)),
     llm_invoke = (\<lambda>p. Inr ''It depends.''),
     fromisoformat = (\<lambda>s. None)\<rparr>"

text \<open>A document whose first paragraph has 501 characters, and its chunks.\<close>

definition long_doc :: Document where
  "long_doc = \<lparr>content = replicate 501 (CHR ''x'') @ [newline] @ ''Short closing line.'',
               doc_metadata = 0\<rparr>"

definition long_store :: store where
  "long_store = [[(''filename'', ''leave_policy_2024.txt''), (''doc_type'', ''policy'')]]"

definition long_chunks :: "Chunk list" where
  "long_chunks =
     [\<lparr>chunk_text = [], metadata = 1\<rparr>,
      \<lparr>chunk_text = replicate 501 (CHR ''x''), metadata = 2\<rparr>,
      \<lparr>chunk_text = ''Short closing line.'', metadata = 3\<rparr>]"

definition long_store_after :: store where
  "long_store_after = long_store @ [long_store ! 0, long_store ! 0, long_store ! 0]"

text \<open>
  The date the loop gives a chunk: none if the key is missing, the string is empty or
  the string does not parse.
\<close>

definition chunk_date :: "(string \<Rightarrow> datetime option) \<Rightarrow> store \<Rightarrow> Chunk \<Rightarrow> datetime option" where
  "chunk_date parse h c =
     (case dict_get h (metadata c) ''effective_date'' of
        None \<Rightarrow> None
      | Some s \<Rightarrow> if s = [] then None else parse s)"

text \<open>
  A parser for the examples. It reads \<^verbatim>\<open>YYYY-MM-DD\<close>, optionally followed by
  \<^verbatim>\<open>THH:MM:SS\<close>, optionally followed by an offset \<^verbatim>\<open>+HH:MM\<close> or \<^verbatim>\<open>-HH:MM\<close>, as
  \<^verbatim>\<open>datetime.fromisoformat\<close> does in every version of Python that has it. It is used only
  on strings of these shapes and on strings that no version accepts.
\<close>

definition rx_iso :: rx where
  "rx_iso =
     Seq (seqs [Grp 1 (Rep Digit 4 (Some 4) True), Lit ''-'',
                Grp 2 (Rep Digit 2 (Some 2) True), Lit ''-'',
                Grp 3 (Rep Digit 2 (Some 2) True)])
       (Alt (Seq (seqs [Lit ''T'', Grp 4 (Rep Digit 2 (Some 2) True), Lit '':'',
                        Grp 5 (Rep Digit 2 (Some 2) True), Lit '':'',
                        Grp 6 (Rep Digit 2 (Some 2) True)])
                 (Alt (seqs [Grp 7 (One (OneOf ''+-'')), Grp 8 (Rep Digit 2 (Some 2) True),
                             Lit '':'', Grp 9 (Rep Digit 2 (Some 2) True)])
                      Eps))
            Eps)"

definition fromisoformat_seconds :: "string \<Rightarrow> datetime option" where
  "fromisoformat_seconds s =
     (case re_match False rx_iso s of
        None \<Rightarrow> None
      | Some m \<Rightarrow>
          if rest m \<noteq> [] then None
          else
            (let y = py_int (group m 1); mo = py_int (group m 2); d = py_int (group m 3);
                 hh = py_int (group m 4); mi = py_int (group m 5); ss = py_int (group m 6);
                 oh = py_int (group m 8); om = py_int (group m 9);
                 off = (case map_of (groups m) 7 of
                          None \<Rightarrow> None
                        | Some sg \<Rightarrow>
                            Some ((if sg = ''-'' then - 1 else 1)
                                    * int ((oh * 3600 + om * 60) * 1000000)))
             in if 1 \<le> y \<and> 1 \<le> mo \<and> mo \<le> 12 \<and> 1 \<le> d \<and> d \<le> days_in_month y mo
                   \<and> hh < 24 \<and> mi < 60 \<and> ss < 60 \<and> oh < 24 \<and> om < 60
                then Some \<lparr>year = y, month = mo, day = d, hour = hh, minute = mi,
                           second = ss, microsecond = 0, utcoffset = off\<rparr>
                else None))"

text \<open>
  Five policy chunks: dated 2022, dated June 2024, with a date that does not parse,
  dated June 2024 again, and without a date.
\<close>

definition dated_store :: store where
  "dated_store =
     [[(''filename'', ''leave_2022.txt''), (''effective_date'', ''2022-01-01T00:00:00'')],
      [(''filename'', ''leave_2024.txt''), (''effective_date'', ''2024-06-01T00:00:00'')],
      [(''filename'', ''leave_draft.txt''), (''effective_date'', ''not a date'')],
      [(''filename'', ''leave_copy.txt''), (''effective_date'', ''2024-06-01T00:00:00'')],
      [(''filename'', ''leave_old.txt'')]]"

definition dated_chunks :: "Chunk list" where
  "dated_chunks =
     [\<lparr>chunk_text = ''10 days'', metadata = 0\<rparr>, \<lparr>chunk_text = ''20 days'', metadata = 1\<rparr>,
      \<lparr>chunk_text = ''25 days'', metadata = 2\<rparr>, \<lparr>chunk_text = ''20 days.'', metadata = 3\<rparr>,
      \<lparr>chunk_text = ''5 days'', metadata = 4\<rparr>]"

text \<open>
  A chunk with a date and no filename, and two chunks of which one has a naive date and
  the other a date with an offset.
\<close>

definition nameless_store :: store where
  "nameless_store = [[(''doc_type'', ''policy''), (''effective_date'', ''2024-06-01'')]]"

definition mixed_store :: store where
  "mixed_store =
     [[(''filename'', ''leave_2024.txt''), (''effective_date'', ''2024-06-01T00:00:00'')],
      [(''filename'', ''leave_2023.txt''),
       (''effective_date'', ''2023-01-01T00:00:00+00:00'')]]"

section \<open>Properties\<close>

subsection \<open>Noise filtering\<close>

lemma filter_noise_subseq: "subseq (filter_noise h chunks) chunks"
  by (simp add: filter_noise_def)

lemma filter_noise_length_le: "length (filter_noise h chunks) \<le> length chunks"
  by (simp add: filter_noise_def)

text \<open>
  C8. \<^verbatim>\<open>filter_noise\<close> returns exactly the chunks whose \<^verbatim>\<open>doc_type\<close> metadata equals
  \<^verbatim>\<open>"policy"\<close>, in their original relative order (it is the filter of the input list by
  that test, so a subsequence of it); the kept chunks and the chunks that are not policy
  chunks add up to the input, and so do the kept count and the printed dropped count.
  The function has no store or list among its results: the input is left as it was.
\<close>

theorem filter_noise_exact:
  "filter_noise h chunks = filter (\<lambda>c. map_of (h ! metadata c) ''doc_type'' = Some ''policy'') chunks
   \<and> subseq (filter_noise h chunks) chunks
   \<and> length (filter_noise h chunks)
       + length (filter (\<lambda>c. map_of (h ! metadata c) ''doc_type'' \<noteq> Some ''policy'') chunks)
       = length chunks
   \<and> length (filter_noise h chunks) + filter_noise_dropped h chunks = length chunks"
proof -
  have eq: "filter_noise h chunks
      = filter (\<lambda>c. map_of (h ! metadata c) ''doc_type'' = Some ''policy'') chunks"
    by (simp add: filter_noise_def is_policy_def dict_get_def)
  have cnt: "length (filter (\<lambda>c. map_of (h ! metadata c) ''doc_type'' = Some ''policy'') chunks)
       + length (filter (\<lambda>c. map_of (h ! metadata c) ''doc_type'' \<noteq> Some ''policy'') chunks)
       = length chunks"
    by (rule sum_length_filter_compl)
  have drp: "length (filter_noise h chunks) + filter_noise_dropped h chunks = length chunks"
    using filter_noise_length_le [of h chunks] by (simp add: filter_noise_dropped_def)
  show ?thesis
    using eq cnt drp filter_noise_subseq [of h chunks] by simp
qed

subsection \<open>Orchestration\<close>

text \<open>
  C9. When the index has been obtained, the query has returned and the filtered
  candidate set is empty, \<^verbatim>\<open>run_pipeline\<close> ends without an exception, what it reports is
  that no relevant policy document was found, and no prompt has been sent to the
  language model.
\<close>

theorem run_pipeline_no_policy:
  assumes "obtain_vector_store w h = Inr (vs, h1)"
    and "retrieve_chunks w vs h1 query TOP_K = Inr (retrieved, h2)"
    and "filter_noise h2 retrieved = []"
  shows "run_pipeline w h query = (Inr NoRelevantPolicyDocuments, [])"
  using assms by (simp add: run_pipeline_def)

theorem run_pipeline_no_policy_witness:
  "obtain_vector_store noise_world noise_store = Inr (noise_index, noise_store)
   \<and> retrieve_chunks noise_world noise_index noise_store ''How many leave days?'' TOP_K
      = Inr (noise_chunks, noise_store)
   \<and> filter_noise noise_store noise_chunks = []
   \<and> run_pipeline noise_world noise_store ''How many leave days?''
      = (Inr NoRelevantPolicyDocuments, [])"
proof -
  have a: "obtain_vector_store noise_world noise_store = Inr (noise_index, noise_store)"
    by (simp add: obtain_vector_store_def noise_world_def)
  have b: "retrieve_chunks noise_world noise_index noise_store ''How many leave days?'' TOP_K
      = Inr (noise_chunks, noise_store)"
    by (simp add: retrieve_chunks_def noise_world_def noise_index_def noise_chunks_def TOP_K_def)
  have c: "filter_noise noise_store noise_chunks = []"
    by (simp add: filter_noise_def is_policy_def dict_get_def noise_store_def noise_chunks_def)
  show ?thesis using a b c run_pipeline_no_policy [OF a b c] by simp
qed

subsection \<open>Content pattern (d)\<close>

text \<open>
  C6, at the text \<^verbatim>\<open>Valid from: March 2024\<close>. The pattern asks for one or two digits
  between the month and the year, so it does not match a date without a day, and the
  function goes on to the bare year and returns January 1, 2024. The format variants
  for a date without a day would have parsed \<^verbatim>\<open>March 2024\<close> as March 1, 2024.
\<close>

theorem dayless_date_misses_pattern_d:
  "re_search True rx_as_of ''Valid from: March 2024'' = None
   \<and> content_pattern4 ''Valid from: March 2024'' = Inr None
   \<and> try_formats ''March 2024'' [fmt_B_d_Y, fmt_b_d_Y, fmt_B_Y, fmt_b_Y]
       = Inr (Some (naive_date 2024 3 1))
   \<and> extract_date_from_content ''Valid from: March 2024'' = Inr (Some (naive_date 2024 1 1))"
proof -
  have a: "re_search True rx_as_of ''Valid from: March 2024'' = None"
    by code_simp
  have b: "try_formats ''March 2024'' [fmt_B_d_Y, fmt_b_d_Y, fmt_B_Y, fmt_b_Y]
       = Inr (Some (naive_date 2024 3 1))"
    by code_simp
  have c: "extract_date_from_content ''Valid from: March 2024''
       = Inr (Some (naive_date 2024 1 1))"
    by code_simp
  show ?thesis using a b c by (simp add: content_pattern4_def)
qed

subsection \<open>Chunking\<close>

lemma py_strip_idem: "py_strip (py_strip s) = py_strip s"
proof -
  define u where "u = dropWhile is_space s"
  define v where "v = dropWhile is_space (rev u)"
  have t: "py_strip s = rev v" by (simp add: py_strip_def u_def v_def)
  have u_split: "u = rev v @ rev (takeWhile is_space (rev u))"
    using takeWhile_dropWhile_id [of is_space "rev u"]
    by (metis rev_append rev_rev_ident v_def)
  have u_hd: "u = [] \<or> \<not> is_space (hd u)"
    unfolding u_def using hd_dropWhile [of is_space s] by blast
  have v_hd: "v = [] \<or> \<not> is_space (hd v)"
    unfolding v_def using hd_dropWhile [of is_space "rev u"] by blast
  have a: "dropWhile is_space (rev v) = rev v"
  proof (cases "v = []")
    case True then show ?thesis by simp
  next
    case False
    then have "hd (rev v) = hd u" using u_split by (metis hd_append2 rev_is_Nil_conv)
    moreover have "u \<noteq> []" using False u_split by auto
    ultimately show ?thesis using u_hd False by (simp add: dropWhile_eq_self_iff)
  qed
  have b: "dropWhile is_space v = v"
    using v_hd by (simp add: dropWhile_eq_self_iff)
  show ?thesis by (simp add: t) (simp add: py_strip_def a b)
qed

lemma paragraphs_stripped: "p \<in> set (paragraphs s) \<Longrightarrow> py_strip p = p"
  by (auto simp: paragraphs_def py_strip_idem)

lemma chunk_loop_extends:
  "chunk_loop md ps buf chunks h = (buf', chunks', h') \<Longrightarrow> \<exists>new. chunks' = chunks @ new"
proof (induction ps arbitrary: buf chunks h)
  case Nil then show ?case by simp
next
  case (Cons p ps)
  show ?case
  proof (cases "length buf + length p \<le> CHUNK_SIZE")
    case True
    with Cons.prems have "chunk_loop md ps (buf @ '' '' @ p) chunks h = (buf', chunks', h')" by simp
    from Cons.IH [OF this] show ?thesis .
  next
    case False
    with Cons.prems have "chunk_loop md ps p
        (chunks @ [\<lparr>chunk_text = py_strip buf, metadata = length h\<rparr>]) (h @ [h ! md]) = (buf', chunks', h')"
      by (simp add: dict_copy_def)
    from Cons.IH [OF this] show ?thesis by auto
  qed
qed

lemma chunk_loop_store:
  assumes "chunk_loop md ps buf chunks h = (buf', chunks', h')" and "md < length h"
  shows "\<exists>new. chunks' = chunks @ new \<and> h' = h @ replicate (length new) (h ! md)
     \<and> (\<forall>i<length new. metadata (new ! i) = length h + i)"
  using assms
proof (induction ps arbitrary: buf chunks h)
  case Nil then show ?case by simp
next
  case (Cons p ps)
  show ?case
  proof (cases "length buf + length p \<le> CHUNK_SIZE")
    case True
    with Cons.prems have "chunk_loop md ps (buf @ '' '' @ p) chunks h = (buf', chunks', h')" by simp
    from Cons.IH [OF this Cons.prems(2)] show ?thesis .
  next
    case False
    let ?c = "\<lparr>chunk_text = py_strip buf, metadata = length h\<rparr>"
    from False Cons.prems have run: "chunk_loop md ps p (chunks @ [?c]) (h @ [h ! md]) = (buf', chunks', h')"
      by (simp add: dict_copy_def)
    have md': "md < length (h @ [h ! md])" using Cons.prems(2) by simp
    from Cons.IH [OF run md'] obtain new where
      n: "chunks' = (chunks @ [?c]) @ new"
         "h' = (h @ [h ! md]) @ replicate (length new) ((h @ [h ! md]) ! md)"
         "\<forall>i<length new. metadata (new ! i) = length (h @ [h ! md]) + i"
      by blast
    have same: "(h @ [h ! md]) ! md = h ! md" using Cons.prems(2) by (simp add: nth_append)
    have "chunks' = chunks @ (?c # new)" using n(1) by simp
    moreover have "h' = h @ replicate (length (?c # new)) (h ! md)"
      using n(2) same by (simp add: replicate_append_same)
    moreover have "\<forall>i<length (?c # new). metadata ((?c # new) ! i) = length h + i"
      using n(3) by (auto simp: nth_Cons split: nat.splits)
    ultimately show ?thesis by blast
  qed
qed

lemma chunk_document_store:
  assumes "chunk_document doc chunks h = (chunks', h')" and "doc_metadata doc < length h"
  shows "\<exists>new. chunks' = chunks @ new \<and> h' = h @ replicate (length new) (h ! doc_metadata doc)
     \<and> (\<forall>i<length new. metadata (new ! i) = length h + i)"
proof -
  obtain buf c1 h1 where l: "chunk_loop (doc_metadata doc) (paragraphs (content doc)) [] chunks h = (buf, c1, h1)"
    by (metis prod_cases3)
  from chunk_loop_store [OF l assms(2)] obtain new where
    n: "c1 = chunks @ new" "h1 = h @ replicate (length new) (h ! doc_metadata doc)"
       "(\<forall>i<length new. metadata (new ! i) = length h + i)" by blast
  show ?thesis
  proof (cases "buf = []")
    case True
    with assms(1) l have "chunks' = c1" "h' = h1" by (simp_all add: chunk_document_def)
    with n show ?thesis by blast
  next
    case False
    let ?c = "\<lparr>chunk_text = py_strip buf, metadata = length h1\<rparr>"
    from False assms(1) l have r: "chunks' = c1 @ [?c]" "h' = h1 @ [h1 ! doc_metadata doc]"
      by (simp_all add: chunk_document_def dict_copy_def)
    have same: "h1 ! doc_metadata doc = h ! doc_metadata doc"
      using n(2) assms(2) by (simp add: nth_append)
    have "chunks' = chunks @ (new @ [?c])" using r(1) n(1) by simp
    moreover have "h' = h @ replicate (length (new @ [?c])) (h ! doc_metadata doc)"
      using r(2) n(2) same by (simp add: replicate_append_same)
    moreover have "\<forall>i<length (new @ [?c]). metadata ((new @ [?c]) ! i) = length h + i"
      using n(2,3) by (auto simp: nth_append)
    ultimately show ?thesis by blast
  qed
qed


lemma chunk_docs_loop_store:
  assumes "chunk_docs_loop docs chunks h = (chunks', h')"
    and "\<forall>d\<in>set docs. doc_metadata d < length h"
  shows "\<exists>css. chunks' = chunks @ concat css \<and> length css = length docs
     \<and> length h' = length h + length (concat css) \<and> take (length h) h' = h
     \<and> (\<forall>i<length (concat css). metadata (concat css ! i) = length h + i)
     \<and> (\<forall>k<length docs. \<forall>c\<in>set (css ! k). h' ! metadata c = h ! doc_metadata (docs ! k))"
  using assms
proof (induction docs arbitrary: chunks h)
  case Nil
  then show ?case by simp
next
  case (Cons d ds)
  obtain c1 h1 where doc: "chunk_document d chunks h = (c1, h1)" by (metis surj_pair)
  have dlt: "doc_metadata d < length h" using Cons.prems(2) by simp
  from chunk_document_store [OF doc dlt] obtain new1 where
    n1: "c1 = chunks @ new1" "h1 = h @ replicate (length new1) (h ! doc_metadata d)"
        "\<forall>i<length new1. metadata (new1 ! i) = length h + i" by blast
  have run: "chunk_docs_loop ds c1 h1 = (chunks', h')" using Cons.prems(1) doc by simp
  have lt1: "\<forall>d'\<in>set ds. doc_metadata d' < length h1" using Cons.prems(2) n1(2) by auto
  from Cons.IH [OF run lt1] obtain css where
    n2: "chunks' = c1 @ concat css" "length css = length ds"
        "length h' = length h1 + length (concat css)" "take (length h1) h' = h1"
        "\<forall>i<length (concat css). metadata (concat css ! i) = length h1 + i"
        "\<forall>k<length ds. \<forall>c\<in>set (css ! k). h' ! metadata c = h1 ! doc_metadata (ds ! k)"
    by blast
  have len1: "length h1 = length h + length new1" using n1(2) by simp
  have old: "\<And>r. r < length h1 \<Longrightarrow> h' ! r = h1 ! r"
    using n2(4) by (metis nth_take)
  have a: "chunks' = chunks @ concat (new1 # css)" using n1(1) n2(1) by simp
  have b: "length (new1 # css) = length (d # ds)" using n2(2) by simp
  have c: "length h' = length h + length (concat (new1 # css))" using n2(3) len1 by simp
  have e: "take (length h) h' = h"
  proof -
    have "take (length h) h' = take (length h) (take (length h1) h')"
      using len1 by (simp add: min_def)
    also have "\<dots> = take (length h) h1" using n2(4) by simp
    also have "\<dots> = h" using n1(2) by simp
    finally show ?thesis .
  qed
  have f: "\<forall>i<length (concat (new1 # css)). metadata (concat (new1 # css) ! i) = length h + i"
    using n1(3) n2(5) len1 by (auto simp: nth_append)
  have g: "\<forall>k<length (d # ds). \<forall>c\<in>set ((new1 # css) ! k).
             h' ! metadata c = h ! doc_metadata ((d # ds) ! k)"
  proof (intro allI impI ballI)
    fix k c assume k: "k < length (d # ds)" and cin: "c \<in> set ((new1 # css) ! k)"
    show "h' ! metadata c = h ! doc_metadata ((d # ds) ! k)"
    proof (cases k)
      case 0
      with cin obtain i where i: "i < length new1" "c = new1 ! i" by (auto simp: in_set_conv_nth)
      then have m: "metadata c = length h + i" using n1(3) by simp
      then have "h' ! metadata c = h1 ! (length h + i)" using old len1 i(1) by simp
      also have "\<dots> = h ! doc_metadata d" using n1(2) i(1) by (simp add: nth_append)
      finally show ?thesis using 0 by simp
    next
      case (Suc k')
      with k cin have "h' ! metadata c = h1 ! doc_metadata (ds ! k')" using n2(6) by simp
      moreover have "doc_metadata (ds ! k') < length h" using Cons.prems(2) k Suc by simp
      ultimately show ?thesis using n1(2) Suc by (simp add: nth_append)
    qed
  qed
  from a b c e f g show ?case by blast
qed

text \<open>
  C7. After \<^verbatim>\<open>chunk_documents\<close> on documents whose metadata dictionaries are in the
  store, the chunks fall into one group per document, and every chunk of a group holds a
  dictionary equal to its document's; the documents' dictionaries are as before; and
  writing any dictionary \<open>m\<close> over the dictionary of one chunk changes neither the
  dictionary of any other chunk nor the dictionary of any document.
\<close>

theorem chunk_metadata_independent:
  assumes "\<forall>d\<in>set docs. doc_metadata d < length h"
    and "chunk_documents h docs = (chunks, h')"
  shows "\<exists>css. chunks = concat css \<and> length css = length docs
     \<and> (\<forall>k<length docs. \<forall>c\<in>set (css ! k). h' ! metadata c = h ! doc_metadata (docs ! k))
     \<and> (\<forall>d\<in>set docs. h' ! doc_metadata d = h ! doc_metadata d)
     \<and> (\<forall>i<length chunks. \<forall>m.
           (\<forall>j<length chunks. j \<noteq> i \<longrightarrow>
              h'[metadata (chunks ! i) := m] ! metadata (chunks ! j) = h' ! metadata (chunks ! j))
           \<and> (\<forall>d\<in>set docs.
              h'[metadata (chunks ! i) := m] ! doc_metadata d = h' ! doc_metadata d))"
proof -
  have run: "chunk_docs_loop docs [] h = (chunks, h')"
    using assms(2) by (simp add: chunk_documents_def)
  from chunk_docs_loop_store [OF run assms(1)] obtain css where
    n: "chunks = concat css" "length css = length docs"
       "take (length h) h' = h"
       "\<forall>i<length (concat css). metadata (concat css ! i) = length h + i"
       "\<forall>k<length docs. \<forall>c\<in>set (css ! k). h' ! metadata c = h ! doc_metadata (docs ! k)"
    by auto
  have refs: "\<And>i. i < length chunks \<Longrightarrow> metadata (chunks ! i) = length h + i"
    using n(1,4) by simp
  have docs_same: "\<forall>d\<in>set docs. h' ! doc_metadata d = h ! doc_metadata d"
    using n(3) assms(1) by (metis nth_take)
  have frame: "\<forall>i<length chunks. \<forall>m.
           (\<forall>j<length chunks. j \<noteq> i \<longrightarrow>
              h'[metadata (chunks ! i) := m] ! metadata (chunks ! j) = h' ! metadata (chunks ! j))
           \<and> (\<forall>d\<in>set docs.
              h'[metadata (chunks ! i) := m] ! doc_metadata d = h' ! doc_metadata d)"
  proof (intro allI impI conjI ballI)
    fix i m j assume "i < length chunks" "j < length chunks" "j \<noteq> i"
    then have "metadata (chunks ! i) \<noteq> metadata (chunks ! j)" using refs by simp
    then show "h'[metadata (chunks ! i) := m] ! metadata (chunks ! j) = h' ! metadata (chunks ! j)"
      by simp
  next
    fix i m d assume "i < length chunks" "d \<in> set docs"
    then have "metadata (chunks ! i) \<noteq> doc_metadata d" using refs assms(1) by fastforce
    then show "h'[metadata (chunks ! i) := m] ! doc_metadata d = h' ! doc_metadata d"
      by simp
  qed
  from n(1,2,5) docs_same frame show ?thesis by blast
qed

theorem chunk_metadata_independent_witness:
  "doc_metadata long_doc < length long_store
   \<and> chunk_documents long_store [long_doc] = (long_chunks, long_store_after)
   \<and> long_store_after[metadata (long_chunks ! 0) := [(''filename'', ''other.txt'')]]
         ! metadata (long_chunks ! 1) = long_store_after ! metadata (long_chunks ! 1)
   \<and> long_store_after[metadata (long_chunks ! 0) := [(''filename'', ''other.txt'')]]
         ! doc_metadata long_doc = long_store_after ! doc_metadata long_doc"
proof -
  have a: "\<forall>d\<in>set [long_doc]. doc_metadata d < length long_store"
    by (simp add: long_doc_def long_store_def)
  have b: "chunk_documents long_store [long_doc] = (long_chunks, long_store_after)"
    by code_simp
  have len: "0 < length long_chunks" "1 < length long_chunks"
    by (simp_all add: long_chunks_def)
  from chunk_metadata_independent [OF a b] have
    "\<forall>i<length long_chunks. \<forall>m.
       (\<forall>j<length long_chunks. j \<noteq> i \<longrightarrow>
          long_store_after[metadata (long_chunks ! i) := m] ! metadata (long_chunks ! j)
            = long_store_after ! metadata (long_chunks ! j))
       \<and> (\<forall>d\<in>set [long_doc].
          long_store_after[metadata (long_chunks ! i) := m] ! doc_metadata d
            = long_store_after ! doc_metadata d)"
    by blast
  with len have
    "long_store_after[metadata (long_chunks ! 0) := [(''filename'', ''other.txt'')]]
         ! metadata (long_chunks ! 1) = long_store_after ! metadata (long_chunks ! 1)"
    "long_store_after[metadata (long_chunks ! 0) := [(''filename'', ''other.txt'')]]
         ! doc_metadata long_doc = long_store_after ! doc_metadata long_doc"
    by auto
  with a b show ?thesis by simp
qed

lemma chunk_document_extends:
  "chunk_document d chunks h = (chunks', h') \<Longrightarrow> \<exists>new. chunks' = chunks @ new"
proof -
  assume a: "chunk_document d chunks h = (chunks', h')"
  obtain buf c1 h1 where l: "chunk_loop (doc_metadata d) (paragraphs (content d)) [] chunks h = (buf, c1, h1)"
    by (metis prod_cases3)
  from chunk_loop_extends [OF l] obtain new where "c1 = chunks @ new" by blast
  with a l show ?thesis
    by (cases "buf = []") (auto simp: chunk_document_def dict_copy_def)
qed

lemma chunk_docs_loop_extends:
  "chunk_docs_loop ds chunks h = (chunks', h') \<Longrightarrow> \<exists>new. chunks' = chunks @ new"
proof (induction ds arbitrary: chunks h)
  case Nil then show ?case by simp
next
  case (Cons d ds)
  obtain c1 h1 where doc: "chunk_document d chunks h = (c1, h1)" by (metis surj_pair)
  from chunk_document_extends [OF doc] obtain n1 where n1: "c1 = chunks @ n1" by blast
  from Cons.prems doc have "chunk_docs_loop ds c1 h1 = (chunks', h')" by simp
  from Cons.IH [OF this] obtain n2 where "chunks' = c1 @ n2" by blast
  with n1 show ?case by simp
qed

lemma chunk_docs_loop_append:
  "chunk_docs_loop (ds1 @ ds2) chunks h =
     (case chunk_docs_loop ds1 chunks h of (c1, h1) \<Rightarrow> chunk_docs_loop ds2 c1 h1)"
  by (induction ds1 arbitrary: chunks h) (auto split: prod.splits)

lemma chunk_document_oversize:
  assumes ps: "paragraphs (content d) = p # ps" and big: "CHUNK_SIZE < length p"
    and run: "chunk_document d chunks h = (chunks', h')"
  shows "\<exists>more. map chunk_text chunks' = map chunk_text chunks @ [] # p # more"
proof -
  let ?md = "doc_metadata d"
  let ?c0 = "\<lparr>chunk_text = py_strip [], metadata = length h\<rparr>"
  let ?h1 = "h @ [h ! ?md]"
  have strip_p: "py_strip p = p"
    using paragraphs_stripped [of p "content d"] ps by simp
  have strip_nil: "py_strip [] = []" by (simp add: py_strip_def)
  have pne: "p \<noteq> []" using big by auto
  have first: "chunk_loop ?md (p # ps) [] chunks h = chunk_loop ?md ps p (chunks @ [?c0]) ?h1"
    using big by (simp add: dict_copy_def)
  obtain buf c2 h2 where l: "chunk_loop ?md ps p (chunks @ [?c0]) ?h1 = (buf, c2, h2)"
    by (metis prod_cases3)
  have "\<exists>more. map chunk_text c2 @ (if buf \<noteq> [] then [py_strip buf] else [])
           = map chunk_text chunks @ [] # p # more"
  proof (cases ps)
    case Nil
    with l have "buf = p" "c2 = chunks @ [?c0]" by simp_all
    then show ?thesis using pne strip_p strip_nil by simp
  next
    case (Cons q qs)
    let ?c1 = "\<lparr>chunk_text = py_strip p, metadata = length ?h1\<rparr>"
    have "chunk_loop ?md (q # qs) p (chunks @ [?c0]) ?h1
            = chunk_loop ?md qs q ((chunks @ [?c0]) @ [?c1]) (?h1 @ [?h1 ! ?md])"
      using big by (simp add: dict_copy_def)
    with l Cons have "chunk_loop ?md qs q ((chunks @ [?c0]) @ [?c1]) (?h1 @ [?h1 ! ?md]) = (buf, c2, h2)"
      by simp
    from chunk_loop_extends [OF this] obtain new where "c2 = ((chunks @ [?c0]) @ [?c1]) @ new"
      by blast
    then show ?thesis using strip_p strip_nil by simp
  qed
  moreover have "chunk_document d chunks h =
      (if buf \<noteq> [] then (c2 @ [\<lparr>chunk_text = py_strip buf, metadata = length h2\<rparr>],
                              h2 @ [h2 ! ?md])
       else (c2, h2))"
    using ps first l by (simp add: chunk_document_def dict_copy_def del: chunk_loop.simps)
  then have "map chunk_text chunks' = map chunk_text c2 @ (if buf \<noteq> [] then [py_strip buf] else [])"
    using run by (cases "buf = []") auto
  ultimately show ?thesis by simp
qed

text \<open>
  C10. If the first paragraph of a document is longer than the threshold, the chunks
  \<^verbatim>\<open>chunk_documents\<close> gives for this document begin with a chunk whose text is empty,
  followed by the chunk of the paragraph itself: an emitted chunk can have an empty text.
\<close>

theorem oversize_first_paragraph_empty_chunk:
  assumes "paragraphs (content d) = p # ps" and "CHUNK_SIZE < length p"
  shows "\<exists>more. map chunk_text (fst (chunk_documents h (ds1 @ d # ds2)))
           = map chunk_text (fst (chunk_documents h ds1)) @ [] # p # more"
proof -
  obtain c1 h1 where a: "chunk_docs_loop ds1 [] h = (c1, h1)" by (metis surj_pair)
  obtain c2 h2 where b: "chunk_document d c1 h1 = (c2, h2)" by (metis surj_pair)
  obtain c3 h3 where c: "chunk_docs_loop ds2 c2 h2 = (c3, h3)" by (metis surj_pair)
  from chunk_document_oversize [OF assms b] obtain more where
    m: "map chunk_text c2 = map chunk_text c1 @ [] # p # more" by blast
  from chunk_docs_loop_extends [OF c] obtain new where n: "c3 = c2 @ new" by blast
  have "chunk_documents h (ds1 @ d # ds2) = (c3, h3)"
    using a b c by (simp add: chunk_documents_def chunk_docs_loop_append)
  moreover have "chunk_documents h ds1 = (c1, h1)" using a by (simp add: chunk_documents_def)
  ultimately show ?thesis using m n by simp
qed

theorem oversize_first_paragraph_empty_chunk_witness:
  "paragraphs (content long_doc) = replicate 501 (CHR ''x'') # [''Short closing line.'']
   \<and> CHUNK_SIZE < length (replicate 501 (CHR ''x''))
   \<and> (\<exists>more. map chunk_text (fst (chunk_documents long_store ([] @ long_doc # [])))
         = map chunk_text (fst (chunk_documents long_store []))
           @ [] # replicate 501 (CHR ''x'') # more)"
proof -
  have a: "paragraphs (content long_doc) = replicate 501 (CHR ''x'') # [''Short closing line.'']"
    by code_simp
  have b: "CHUNK_SIZE < length (replicate 501 (CHR ''x''))"
    by (simp add: CHUNK_SIZE_def)
  from oversize_first_paragraph_empty_chunk [OF a b, of long_store "[]" "[]"] a b
  show ?thesis by blast
qed

subsection \<open>Evaluation and search\<close>






subsection \<open>Dates in filenames\<close>







lemma py_datetime_jan1: "1 \<le> y \<Longrightarrow> y \<le> 9999 \<Longrightarrow> py_datetime y 1 1 = Inr (naive_date y 1 1)"
  by (simp add: py_datetime_def naive_date_def days_in_month_def)




subsection \<open>The effective date in the content\<close>















subsection \<open>The chain of strategies never fails\<close>






















end
